theory Spec2Isabelle
  imports Complex_Main "HOL-Library.Char_ord" "HOL-Library.List_Lexorder" "HOL-Library.Multiset"
    "HOL-Library.Log_Nat"
begin

section \<open>PyTrack: the data-access layer of \<^verbatim>\<open>main.py\<close>\<close>

text \<open>
  The program keeps its data in an SQLite file and reaches it through a handful of
  functions, each of which opens a connection, runs one statement and commits. The
  embedding below passes the contents of the file explicitly: a function that writes
  returns its result together with the new contents.

  Conventions of the embedding.
  \<^item> A Python \<^verbatim>\<open>str\<close> is a \<^typ>\<open>string\<close>, one \<^typ>\<open>char\<close> per code point, so the
    embedding covers the code points below 256. Among these the decimal digits
    (\<^verbatim>\<open>\d\<close> of a Python regular expression) are exactly \<^verbatim>\<open>0\<close> to \<^verbatim>\<open>9\<close>. SQLite compares
    \<^verbatim>\<open>TEXT\<close> under the \<^verbatim>\<open>BINARY\<close> collation, bytewise on the UTF-8 encoding, which is
    the lexicographic order on code points: the order of \<^typ>\<open>string\<close> used here.
  \<^item> An amount is a Python \<^verbatim>\<open>float\<close> stored in a \<^verbatim>\<open>REAL\<close> column: an IEEE 754 double. It
    is embedded as the \<^typ>\<open>real\<close> number it denotes, and every operation on doubles rounds
    its exact result to the nearest double. Infinities and NaN are outside the model.
  \<^item> Failures of the storage engine itself (no disk space, an unreadable file, the
    64-bit limit of row ids) are outside the model.
\<close>

subsection \<open>\<^verbatim>\<open>datetime.strptime(date_str, '%Y-%m-%d')\<close>\<close>

text \<open>
  \<^verbatim>\<open>strptime\<close> compiles the format into the regular expression
  \<^verbatim>\<open>(?P<Y>\d\d\d\d)-(?P<m>1[0-2]|0[1-9]|[1-9])-(?P<d>3[0-1]|[1-2]\d|0[1-9]|[1-9]| [1-9])\<close>,
  matches it at the start of the string, raises \<^verbatim>\<open>ValueError\<close> when there is no
  match or when the match stops before the end of the string, converts the three
  groups with \<^verbatim>\<open>int\<close> and builds a \<^verbatim>\<open>date\<close>, which raises \<^verbatim>\<open>ValueError\<close> for a year
  outside 1..9999 or a day the month does not have.

  A regular expression is embedded as the list of its matches at the start of a string,
  in the order a backtracking matcher tries them: each match is the text consumed and
  the rest of the string.
\<close>

type_synonym regex = "string \<Rightarrow> (string \<times> string) list"

definition one_of :: "string \<Rightarrow> regex" where
  "one_of cs s = (case s of [] \<Rightarrow> [] | c # r \<Rightarrow> if c \<in> set cs then [([c], r)] else [])"

definition thn :: "regex \<Rightarrow> regex \<Rightarrow> regex" where
  "thn p q s = concat (map (\<lambda>(x, r). map (\<lambda>(y, r'). (x @ y, r')) (q r)) (p s))"

definition alt :: "regex \<Rightarrow> regex \<Rightarrow> regex" where
  "alt p q s = p s @ q s"

definition re_digit :: regex where
  "re_digit = one_of ''0123456789''"

definition re_Y :: regex where
  "re_Y = thn re_digit (thn re_digit (thn re_digit re_digit))"

definition re_m :: regex where
  "re_m = alt (thn (one_of ''1'') (one_of ''012''))
         (alt (thn (one_of ''0'') (one_of ''123456789''))
              (one_of ''123456789''))"

definition re_d :: regex where
  "re_d = alt (thn (one_of ''3'') (one_of ''01''))
         (alt (thn (one_of ''12'') re_digit)
         (alt (thn (one_of ''0'') (one_of ''123456789''))
         (alt (one_of ''123456789'')
              (thn (one_of '' '') (one_of ''123456789'')))))"

text \<open>The matches of the whole expression: the three groups and the unconverted rest.\<close>

definition format_regex :: "string \<Rightarrow> (string \<times> string \<times> string \<times> string) list" where
  "format_regex s =
     concat (map (\<lambda>(y, r1).
       concat (map (\<lambda>(h1, r2).
         concat (map (\<lambda>(m, r3).
           concat (map (\<lambda>(h2, r4).
             map (\<lambda>(d, r5). (y, m, d, r5)) (re_d r4))
           (one_of ''-'' r3)))
         (re_m r2)))
       (one_of ''-'' r1)))
     (re_Y s))"

definition digit_val :: "char \<Rightarrow> nat" where
  "digit_val c =
     (case map_of (zip ''0123456789'' [0, 1, 2, 3, 4, 5, 6, 7, 8, 9]) c of
        None \<Rightarrow> 0
      | Some v \<Rightarrow> v)"

text \<open>
  \<^verbatim>\<open>int(group)\<close> on a group of the expression above: decimal digits, after one
  leading space in the last alternative of \<^verbatim>\<open>%d\<close> (\<^verbatim>\<open>int\<close> skips surrounding blanks).
\<close>

definition py_int :: "string \<Rightarrow> nat" where
  "py_int s = foldl (\<lambda>n c. 10 * n + digit_val c) 0 (dropWhile (\<lambda>c. c = CHR '' '') s)"

definition is_leap :: "nat \<Rightarrow> bool" where
  "is_leap y = (y mod 4 = 0 \<and> (y mod 100 \<noteq> 0 \<or> y mod 400 = 0))"

definition days_in_month :: "nat \<Rightarrow> nat \<Rightarrow> nat" where
  "days_in_month y m =
     (if m = 2 then (if is_leap y then 29 else 28)
      else if m = 4 \<or> m = 6 \<or> m = 9 \<or> m = 11 then 30 else 31)"

text \<open>The checks of the \<^verbatim>\<open>date(year, month, day)\<close> constructor.\<close>

definition valid_date :: "nat \<Rightarrow> nat \<Rightarrow> nat \<Rightarrow> bool" where
  "valid_date y m d =
     (1 \<le> y \<and> y \<le> 9999 \<and> 1 \<le> m \<and> m \<le> 12 \<and> 1 \<le> d \<and> d \<le> days_in_month y m)"

text \<open>\<^verbatim>\<open>None\<close> stands for the \<^verbatim>\<open>ValueError\<close> that \<^verbatim>\<open>strptime\<close> raises.\<close>

definition strptime :: "string \<Rightarrow> (nat \<times> nat \<times> nat) option" where
  "strptime s =
     (case format_regex s of
        [] \<Rightarrow> None
      | (y, m, d, rest) # _ \<Rightarrow>
          if rest \<noteq> [] then None
          else if valid_date (py_int y) (py_int m) (py_int d)
               then Some (py_int y, py_int m, py_int d)
               else None)"

subsection \<open>The date form the specification names\<close>

text \<open>
  A real calendar date in \<^verbatim>\<open>YYYY-MM-DD\<close> form, as the specification words it: ten
  characters, four digits of year, two of month and two of day, zero-padded and
  separated by hyphens, denoting a day that exists.
\<close>

definition is_digit :: "char \<Rightarrow> bool" where
  "is_digit c = (c \<in> set ''0123456789'')"

definition year_text :: "string \<Rightarrow> string" where
  "year_text s = take 4 s"

definition month_text :: "string \<Rightarrow> string" where
  "month_text s = take 2 (drop 5 s)"

definition day_text :: "string \<Rightarrow> string" where
  "day_text s = drop 8 s"

definition fixed_width :: "string \<Rightarrow> bool" where
  "fixed_width s =
     (length s = 10 \<and> s ! 4 = CHR ''-'' \<and> s ! 7 = CHR ''-'' \<and>
      list_all is_digit (year_text s @ month_text s @ day_text s))"

definition iso_date :: "string \<Rightarrow> bool" where
  "iso_date s =
     (fixed_width s \<and>
      valid_date (py_int (year_text s)) (py_int (month_text s)) (py_int (day_text s)))"

subsection \<open>SQLite's \<^verbatim>\<open>strftime('%Y-%m', date)\<close>\<close>

text \<open>
  SQLite reads a date from a text value only in the fixed-width form: four digits, a
  hyphen, two digits between 01 and 12, a hyphen, two digits between 01 and 31. For
  any other text \<^verbatim>\<open>strftime\<close> is \<^verbatim>\<open>NULL\<close>, here \<^const>\<open>None\<close>. A day beyond the end of
  its month (at most three days, and never in December) is counted on into the next
  month. SQLite also reads blanks or a time of day after the date, the word \<^verbatim>\<open>now\<close> and
  Julian day numbers; no such text passes \<^const>\<open>strptime\<close>, so none is ever stored by
  \<^verbatim>\<open>add_expense\<close>, and the embedding leaves them out.
\<close>

definition two_digits :: "nat \<Rightarrow> string" where
  "two_digits n = [''0123456789'' ! (n div 10 mod 10), ''0123456789'' ! (n mod 10)]"

definition sqlite_strftime_Ym :: "string \<Rightarrow> string option" where
  "sqlite_strftime_Ym s =
     (if fixed_width s then
        (let Y = py_int (year_text s); M = py_int (month_text s); D = py_int (day_text s)
         in if 1 \<le> M \<and> M \<le> 12 \<and> 1 \<le> D \<and> D \<le> 31
            then (if D \<le> days_in_month Y M then Some (take 7 s)
                  else Some (take 5 s @ two_digits (M + 1)))
            else None)
      else None)"

subsection \<open>IEEE 754 doubles\<close>

text \<open>
  A finite double is a multiple of a power of two with a significand of 53 bits; the
  smallest unit is \<open>2^-1074\<close>. Addition, subtraction, multiplication and division return
  the double nearest to the exact result, and of two equally near ones the one with the
  even significand. Results beyond the largest double are outside the model.
\<close>

text \<open>The exponent \<open>e\<close> with \<open>2^e \<le> |x| < 2^(e+1)\<close>, for \<open>x\<close> other than zero.\<close>

definition binade :: "real \<Rightarrow> int" where
  "binade x =
     (if 1 \<le> \<bar>x\<bar> then bitlen \<lfloor>\<bar>x\<bar>\<rfloor> - 1 else - bitlen (\<lceil>1 / \<bar>x\<bar>\<rceil> - 1))"

definition round_half_even :: "real \<Rightarrow> int" where
  "round_half_even x =
     (let f = \<lfloor>x\<rfloor>
      in if x - of_int f < 1 / 2 then f
         else if x - of_int f > 1 / 2 then f + 1
         else if even f then f else f + 1)"

definition pow2 :: "int \<Rightarrow> real" where
  "pow2 e = (if 0 \<le> e then 2 ^ nat e else 1 / 2 ^ nat (- e))"

definition round_double :: "real \<Rightarrow> real" where
  "round_double x =
     (if x = 0 then 0
      else let e = max (binade x - 52) (- 1074)
           in of_int (round_half_even (x / pow2 e)) * pow2 e)"

definition is_double :: "real \<Rightarrow> bool" where
  "is_double x = (round_double x = x)"

definition double_add :: "real \<Rightarrow> real \<Rightarrow> real" where
  "double_add x y = round_double (x + y)"

definition double_sub :: "real \<Rightarrow> real \<Rightarrow> real" where
  "double_sub x y = round_double (x - y)"

definition double_mul :: "real \<Rightarrow> real \<Rightarrow> real" where
  "double_mul x y = round_double (x * y)"

definition double_div :: "real \<Rightarrow> real \<Rightarrow> real" where
  "double_div x y = round_double (x / y)"

text \<open>The double that a decimal literal such as \<^verbatim>\<open>19.99\<close> denotes.\<close>

definition py_float :: "real \<Rightarrow> real" where
  "py_float x = round_double x"

text \<open>
  SQLite's \<^verbatim>\<open>SUM\<close> and \<^verbatim>\<open>AVG\<close> over \<^verbatim>\<open>REAL\<close> values (\<^verbatim>\<open>sumStep\<close>, \<^verbatim>\<open>sumFinalize\<close> and
  \<^verbatim>\<open>avgFinalize\<close> of SQLite 3.44 and later) keep a running sum and an error term,
  both doubles starting at zero, and add the two at the end:
  \<^verbatim>\<open>t = s + r; if( fabs(s) > fabs(r) ) rErr += (s - t) + r; else rErr += (r - t) + s; rSum = t;\<close>
\<close>

definition kahanBabuskaNeumaierStep :: "real \<times> real \<Rightarrow> real \<Rightarrow> real \<times> real" where
  "kahanBabuskaNeumaierStep p r =
     (let s = fst p; t = double_add s r
      in (t, double_add (snd p)
               (if \<bar>s\<bar> > \<bar>r\<bar> then double_add (double_sub s t) r
                else double_add (double_sub r t) s)))"

definition double_sum :: "real list \<Rightarrow> real" where
  "double_sum xs =
     (let p = foldl kahanBabuskaNeumaierStep (0, 0) xs in double_add (fst p) (snd p))"

subsection \<open>The stored state\<close>

text \<open>
  The four tables of \<^verbatim>\<open>initialize_db\<close>. The rows of \<^verbatim>\<open>expenses\<close> are kept in the order
  of their insertion; the column \<^verbatim>\<open>note\<close> is the field \<open>note_text\<close>
  (\<open>note\<close> is a keyword of Isabelle); \<^verbatim>\<open>sqlite_sequence\<close> is the counter SQLite keeps for an
  \<^verbatim>\<open>AUTOINCREMENT\<close> key: the largest id ever given out. \<^verbatim>\<open>categories\<close>, \<^verbatim>\<open>goals\<close> and
  \<^verbatim>\<open>settings\<close> have their text column as primary key.
\<close>

record expense =
  eid :: int
  date :: string
  amount :: real
  category :: string
  note_text :: string

record db =
  expenses :: "expense list"
  sqlite_sequence :: int
  categories :: "string list"
  goals :: "string \<rightharpoonup> real"
  settings :: "string \<rightharpoonup> string"

text \<open>
  The file as \<^verbatim>\<open>connect_db\<close> finds it: each table is there or not. Only
  \<^verbatim>\<open>initialize_db\<close> creates tables, and \<^verbatim>\<open>main\<close> calls it before anything else, so every
  other function is embedded on a \<^typ>\<open>db\<close>, where the four tables exist.
\<close>

record store =
  expenses_tbl :: "(expense list \<times> int) option"
  categories_tbl :: "string list option"
  goals_tbl :: "(string \<rightharpoonup> real) option"
  settings_tbl :: "(string \<rightharpoonup> string) option"

definition fresh_store :: store where
  "fresh_store = \<lparr>expenses_tbl = None, categories_tbl = None, goals_tbl = None,
                  settings_tbl = None\<rparr>"

definition store_of :: "db \<Rightarrow> store" where
  "store_of d = \<lparr>expenses_tbl = Some (expenses d, sqlite_sequence d),
                 categories_tbl = Some (categories d),
                 goals_tbl = Some (goals d),
                 settings_tbl = Some (settings d)\<rparr>"

definition db_of :: "store \<Rightarrow> db option" where
  "db_of s =
     (case (expenses_tbl s, categories_tbl s, goals_tbl s, settings_tbl s) of
        (Some (rows, sq), Some cs, Some g, Some st) \<Rightarrow>
          Some \<lparr>expenses = rows, sqlite_sequence = sq, categories = cs, goals = g,
                settings = st\<rparr>
      | _ \<Rightarrow> None)"

subsection \<open>\<^verbatim>\<open>initialize_db\<close>\<close>

definition create_table_if_not_exists :: "'a \<Rightarrow> 'a option \<Rightarrow> 'a option" where
  "create_table_if_not_exists new t = (case t of None \<Rightarrow> Some new | Some x \<Rightarrow> Some x)"

definition insert_or_ignore :: "'k \<Rightarrow> 'v \<Rightarrow> ('k \<rightharpoonup> 'v) \<Rightarrow> ('k \<rightharpoonup> 'v)" where
  "insert_or_ignore k v m = (case m k of None \<Rightarrow> m(k \<mapsto> v) | Some _ \<Rightarrow> m)"

definition default_categories :: "string list" where
  "default_categories = [''Food'', ''Travel'', ''Shopping'', ''Bills'', ''Misc'']"

definition initialize_db :: "store \<Rightarrow> store" where
  "initialize_db s0 =
     (let s1 = s0\<lparr>expenses_tbl := create_table_if_not_exists ([], 0) (expenses_tbl s0)\<rparr>;
          s2 = s1\<lparr>categories_tbl := create_table_if_not_exists [] (categories_tbl s1)\<rparr>;
          s3 = s2\<lparr>goals_tbl := create_table_if_not_exists Map.empty (goals_tbl s2)\<rparr>;
          s4 = s3\<lparr>settings_tbl := create_table_if_not_exists Map.empty (settings_tbl s3)\<rparr>;
          s5 = s4\<lparr>settings_tbl :=
                    map_option (insert_or_ignore ''currency_symbol'' ''$'') (settings_tbl s4)\<rparr>
      in case categories_tbl s5 of
           None \<Rightarrow> s5
         | Some cs \<Rightarrow>
             if length cs = 0 then s5\<lparr>categories_tbl := Some (cs @ default_categories)\<rparr>
             else s5)"

subsection \<open>Settings and goals\<close>

definition get_setting :: "string \<Rightarrow> db \<Rightarrow> string option" where
  "get_setting k d = settings d k"

definition update_setting :: "string \<Rightarrow> string \<Rightarrow> db \<Rightarrow> db" where
  "update_setting k v d = d\<lparr>settings := (settings d)(k \<mapsto> v)\<rparr>"

definition set_monthly_goal :: "string \<Rightarrow> real \<Rightarrow> db \<Rightarrow> db" where
  "set_monthly_goal month_str goal_amount d = d\<lparr>goals := (goals d)(month_str \<mapsto> goal_amount)\<rparr>"

definition get_monthly_goal :: "string \<Rightarrow> db \<Rightarrow> real" where
  "get_monthly_goal month_str d = (case goals d month_str of None \<Rightarrow> 0 | Some g \<Rightarrow> g)"

subsection \<open>Expenses\<close>

text \<open>
  \<^verbatim>\<open>add_expense\<close> validates inside one \<^verbatim>\<open>try\<close>: \<^verbatim>\<open>strptime\<close> first, then
  \<^verbatim>\<open>float(amount) <= 0\<close>; either \<^verbatim>\<open>ValueError\<close> makes it return \<^verbatim>\<open>False\<close> before a
  connection is opened. Otherwise the row is inserted under the next id of the
  \<^verbatim>\<open>AUTOINCREMENT\<close> key, one more than the largest id in the table or ever given out.
\<close>

definition next_id :: "db \<Rightarrow> int" where
  "next_id d = fold max (map eid (expenses d)) (sqlite_sequence d) + 1"

definition add_expense :: "string \<Rightarrow> real \<Rightarrow> string \<Rightarrow> string \<Rightarrow> db \<Rightarrow> bool \<times> db" where
  "add_expense date_str amnt cat nt d =
     (case strptime date_str of
        None \<Rightarrow> (False, d)
      | Some _ \<Rightarrow>
          if amnt \<le> 0 then (False, d)
          else (True,
                d\<lparr>expenses := expenses d @
                     [\<lparr>eid = next_id d, date = date_str, amount = amnt, category = cat,
                       note_text = nt\<rparr>],
                   sqlite_sequence := next_id d\<rparr>))"


text \<open>\<^verbatim>\<open>cursor.rowcount\<close> is the number of rows the \<^verbatim>\<open>DELETE\<close> removed.\<close>

definition delete_expense :: "int \<Rightarrow> db \<Rightarrow> bool \<times> db" where
  "delete_expense expense_id d =
     (let rowcount = length (filter (\<lambda>r. eid r = expense_id) (expenses d))
      in (rowcount > 0,
          d\<lparr>expenses := filter (\<lambda>r. eid r \<noteq> expense_id) (expenses d)\<rparr>))"

text \<open>\<^verbatim>\<open>SUM\<close> and \<^verbatim>\<open>AVG\<close> are \<^verbatim>\<open>NULL\<close> over no rows.\<close>

definition sql_SUM :: "real list \<Rightarrow> real option" where
  "sql_SUM xs = (if xs = [] then None else Some (double_sum xs))"

definition sql_AVG :: "real list \<Rightarrow> real option" where
  "sql_AVG xs =
     (if xs = [] then None else Some (double_div (double_sum xs) (real (length xs))))"

text \<open>
  The amounts that \<^verbatim>\<open>WHERE strftime('%Y-%m', date) = ?\<close> selects, in the order of the rows.
\<close>

definition month_amounts :: "string \<Rightarrow> db \<Rightarrow> real list" where
  "month_amounts month_str d =
     map amount (filter (\<lambda>r. sqlite_strftime_Ym (date r) = Some month_str) (expenses d))"

definition get_total_expenses_for_month :: "string \<Rightarrow> db \<Rightarrow> real" where
  "get_total_expenses_for_month month_str d =
     (case sql_SUM (month_amounts month_str d) of
        None \<Rightarrow> 0
      | Some month_total \<Rightarrow> month_total)"

text \<open>
  \<^verbatim>\<open>WHERE date BETWEEN ? AND ? ORDER BY date\<close>, selecting the four columns after the id.
\<close>

definition get_expenses_in_date_range ::
  "string \<Rightarrow> string \<Rightarrow> db \<Rightarrow> (string \<times> real \<times> string \<times> string) list" where
  "get_expenses_in_date_range start_date end_date d =
     map (\<lambda>r. (date r, amount r, category r, note_text r))
       (sort_key date (filter (\<lambda>r. start_date \<le> date r \<and> date r \<le> end_date) (expenses d)))"

text \<open>
  \<^verbatim>\<open>SELECT AVG(daily_total) FROM (SELECT SUM(amount) AS daily_total FROM expenses GROUP BY date)\<close>:
  one group for each distinct text in the date column, which SQLite forms by sorting on
  that column. The function returns \<^verbatim>\<open>average if average else 0.0\<close>, and both \<^verbatim>\<open>None\<close>
  and \<^verbatim>\<open>0.0\<close> are false in Python.
\<close>

definition daily_totals :: "db \<Rightarrow> real list" where
  "daily_totals d =
     map (\<lambda>day. double_sum (map amount (filter (\<lambda>r. date r = day) (expenses d))))
       (sort (remdups (map date (expenses d))))"

definition get_average_daily_expense :: "db \<Rightarrow> real" where
  "get_average_daily_expense d =
     (case sql_AVG (daily_totals d) of
        None \<Rightarrow> 0
      | Some average \<Rightarrow> if average \<noteq> 0 then average else 0)"

subsection \<open>Categories\<close>

text \<open>
  \<^verbatim>\<open>str.strip()\<close> removes the characters for which \<^verbatim>\<open>str.isspace\<close> holds; below code
  point 256 these are 9 to 13, 28 to 32, 133 and 160.
\<close>

definition py_isspace :: "char \<Rightarrow> bool" where
  "py_isspace c = (of_char c \<in> set [9, 10, 11, 12, 13, 28, 29, 30, 31, 32, 133, 160 :: nat])"

definition strip :: "string \<Rightarrow> string" where
  "strip s = rev (dropWhile py_isspace (rev (dropWhile py_isspace s)))"

definition get_categories :: "db \<Rightarrow> string list" where
  "get_categories d = sort (categories d)"

text \<open>
  The insert raises \<^verbatim>\<open>sqlite3.IntegrityError\<close> when the name is already a key of the
  table. The function returns a pair: success and a message.
\<close>

definition add_category :: "string \<Rightarrow> db \<Rightarrow> (bool \<times> string) \<times> db" where
  "add_category category_name d =
     (if strip category_name = [] then ((False, ''Category name cannot be empty.''), d)
      else if category_name \<in> set (categories d)
        then ((False, ''Error: Category '' @ [CHR 39] @ category_name @ [CHR 39] @
                       '' already exists.''), d)
        else ((True, ''Category '' @ [CHR 39] @ category_name @ [CHR 39] @
                      '' added successfully.''),
              d\<lparr>categories := categories d @ [category_name]\<rparr>))"

subsection \<open>The budget status of the GUI\<close>

text \<open>
  \<^verbatim>\<open>ExpenseTrackerApp.update_goal_display\<close> reads the goal and the total of the current
  month and sets the progress bar and the status label. The embedding returns the
  value of the bar and the text of the label; the month comes from the clock and is a
  parameter here.
\<close>

definition update_goal_display :: "string \<Rightarrow> db \<Rightarrow> real \<times> string" where
  "update_goal_display month_str d =
     (let goal = get_monthly_goal month_str d;
          spent = get_total_expenses_for_month month_str d
      in if goal > 0 then
           (let percentage = double_mul (double_div spent goal) 100
            in if percentage > 100 then (percentage, ''Status: Over Budget!'')
               else if percentage > 85 then (percentage, ''Status: Nearing Budget'')
               else (percentage, ''Status: On Track''))
         else (0, ''Set a goal to see your status.''))"

subsection \<open>The store once \<^verbatim>\<open>initialize_db\<close> has run on an empty file\<close>

definition init_db :: db where
  "init_db = \<lparr>expenses = [], sqlite_sequence = 0,
              categories = [''Food'', ''Travel'', ''Shopping'', ''Bills'', ''Misc''],
              goals = Map.empty, settings = [''currency_symbol'' \<mapsto> ''$'']\<rparr>"

subsection \<open>Sequences of operations\<close>

text \<open>
  One call of a function that can write to the file. \<^verbatim>\<open>initialize_db\<close> is among them:
  \<^verbatim>\<open>main\<close> calls it at every start of the program.
\<close>

inductive step :: "db \<Rightarrow> db \<Rightarrow> bool" where
  step_add_expense: "step d (snd (add_expense date_str amnt cat nt d))"
| step_delete_expense: "step d (snd (delete_expense expense_id d))"
| step_add_category: "step d (snd (add_category category_name d))"
| step_set_monthly_goal: "step d (set_monthly_goal month_str goal_amount d)"
| step_update_setting: "step d (update_setting k v d)"
| step_initialize_db: "db_of (initialize_db (store_of d)) = Some d' \<Longrightarrow> step d d'"

definition reachable :: "db \<Rightarrow> bool" where
  "reachable d = rtranclp step init_db d"

text \<open>What every reachable state satisfies (lemma \<open>reachable_well_formed\<close> below).\<close>

definition well_formed :: "db \<Rightarrow> bool" where
  "well_formed d =
     ((\<forall>r \<in> set (expenses d).
         0 < amount r \<and> strptime (date r) \<noteq> None \<and> 1 \<le> eid r \<and> eid r \<le> sqlite_sequence d) \<and>
      0 \<le> sqlite_sequence d \<and>
      distinct (map eid (expenses d)) \<and>
      distinct (categories d) \<and>
      categories d \<noteq> [] \<and>
      settings d ''currency_symbol'' \<noteq> None)"

subsection \<open>Two stores used as examples\<close>

text \<open>
  One expense added to the initialized store; then a second one added and the first one
  deleted.
\<close>

definition one_expense_db :: db where
  "one_expense_db = snd (add_expense ''2024-01-15'' 10 ''Food'' ''lunch'' init_db)"

definition second_expense_db :: db where
  "second_expense_db =
     snd (delete_expense 1 (snd (add_expense ''2024-02-01'' 5 ''Travel'' ''bus'' one_expense_db)))"



text \<open>An expense dated with a blank in the day, as \<^verbatim>\<open>strptime\<close> accepts it.\<close>

definition space_padded_db :: db where
  "space_padded_db = snd (add_expense ''2024-01- 5'' 10 ''Food'' [] init_db)"

text \<open>The same day under two spellings.\<close>

definition two_spellings_db :: db where
  "two_spellings_db =
     snd (add_expense ''2024-1-5'' 20 ''Food'' []
       (snd (add_expense ''2024-01-05'' 10 ''Food'' [] init_db)))"

text \<open>A goal of 0.2 with 0.17 spent.\<close>

definition boundary_db :: db where
  "boundary_db =
     set_monthly_goal ''2024-01'' (py_float (2 / 10))
       (snd (add_expense ''2024-01-15'' (py_float (17 / 100)) ''Food'' [] init_db))"



text \<open>Ten on the first of March, four and six on the second.\<close>

definition three_expenses_db :: db where
  "three_expenses_db =
     snd (add_expense ''2024-03-02'' 6 ''Food'' []
       (snd (add_expense ''2024-03-02'' 4 ''Food'' []
         (snd (add_expense ''2024-03-01'' 10 ''Bills'' [] init_db)))))"

text \<open>An expense on the first of February, then one on the last day of January.\<close>

definition two_months_db :: db where
  "two_months_db =
     snd (add_expense ''2024-01-31'' 7 ''Bills'' []
       (snd (add_expense ''2024-02-01'' 3 ''Food'' [] init_db)))"

section \<open>Dates: what \<^const>\<open>strptime\<close> and SQLite make of the fixed-width form\<close>

lemma length_10_cases:
  assumes "length s = 10"
  obtains c0 c1 c2 c3 c4 c5 c6 c7 c8 c9 where "s = [c0, c1, c2, c3, c4, c5, c6, c7, c8, c9]"
proof -
  from assms obtain c0 r0 where r0: "s = c0 # r0" "length r0 = 9" by (cases s) auto
  then obtain c1 r1 where r1: "r0 = c1 # r1" "length r1 = 8" by (cases r0) auto
  then obtain c2 r2 where r2: "r1 = c2 # r2" "length r2 = 7" by (cases r1) auto
  then obtain c3 r3 where r3: "r2 = c3 # r3" "length r3 = 6" by (cases r2) auto
  then obtain c4 r4 where r4: "r3 = c4 # r4" "length r4 = 5" by (cases r3) auto
  then obtain c5 r5 where r5: "r4 = c5 # r5" "length r5 = 4" by (cases r4) auto
  then obtain c6 r6 where r6: "r5 = c6 # r6" "length r6 = 3" by (cases r5) auto
  then obtain c7 r7 where r7: "r6 = c7 # r7" "length r7 = 2" by (cases r6) auto
  then obtain c8 r8 where r8: "r7 = c8 # r8" "length r8 = 1" by (cases r7) auto
  then obtain c9 where r9: "r8 = [c9]" by (cases r8) auto
  show ?thesis
    by (rule that [of c0 c1 c2 c3 c4 c5 c6 c7 c8 c9]) (simp add: r0 r1 r2 r3 r4 r5 r6 r7 r8 r9)
qed


lemma re_digit_digit: "is_digit c \<Longrightarrow> re_digit (c # r) = [([c], r)]"
  by (simp add: re_digit_def one_of_def is_digit_def)

lemma re_Y_digits:
  "is_digit a \<Longrightarrow> is_digit b \<Longrightarrow> is_digit c \<Longrightarrow> is_digit e \<Longrightarrow>
   re_Y (a # b # c # e # r) = [([a, b, c, e], r)]"
  by (simp add: re_Y_def thn_def re_digit_digit)

lemma is_digit_not_space: "is_digit c \<Longrightarrow> c \<noteq> CHR '' ''"
  by (auto simp: is_digit_def)

lemma is_digit_not_hyphen: "is_digit c \<Longrightarrow> c \<noteq> CHR ''-''"
  by (auto simp: is_digit_def)

lemma py_int_2: "is_digit a \<Longrightarrow> py_int [a, b] = 10 * digit_val a + digit_val b"
  by (simp add: py_int_def is_digit_not_space)

lemma py_int_4: "is_digit a \<Longrightarrow> py_int [a, b, c, e] = 1000 * digit_val a + 100 * digit_val b + 10 * digit_val c + digit_val e"
  by (simp add: py_int_def is_digit_not_space)

lemma digit_val_eq_0: "is_digit c \<Longrightarrow> digit_val c = 0 \<Longrightarrow> c = CHR ''0''"
  by (auto simp: is_digit_def digit_val_def)

lemma digit_val_eq_1: "is_digit c \<Longrightarrow> digit_val c = 1 \<Longrightarrow> c = CHR ''1''"
  by (auto simp: is_digit_def digit_val_def)

lemma digit_val_eq_2: "is_digit c \<Longrightarrow> digit_val c = 2 \<Longrightarrow> c = CHR ''2''"
  by (auto simp: is_digit_def digit_val_def)

lemma digit_val_eq_3: "is_digit c \<Longrightarrow> digit_val c = 3 \<Longrightarrow> c = CHR ''3''"
  by (auto simp: is_digit_def digit_val_def)

lemma digit_val_pos: "is_digit c \<Longrightarrow> 1 \<le> digit_val c \<Longrightarrow> c \<in> set ''123456789''"
  by (auto simp: is_digit_def digit_val_def)

lemma digit_val_le_1: "is_digit c \<Longrightarrow> digit_val c \<le> 1 \<Longrightarrow> c \<in> set ''01''"
  by (auto simp: is_digit_def digit_val_def)

lemma digit_val_le_2: "is_digit c \<Longrightarrow> digit_val c \<le> 2 \<Longrightarrow> c \<in> set ''012''"
  by (auto simp: is_digit_def digit_val_def)

lemma hyphen_next: "one_of ''-'' (CHR ''-'' # r) = [([CHR ''-''], r)]"
  by (simp add: one_of_def)

lemma hyphen_digit: "is_digit b \<Longrightarrow> one_of ''-'' (b # r) = []"
  by (simp add: one_of_def is_digit_not_hyphen)

lemma re_m_0x:
  "b \<in> set ''123456789'' \<Longrightarrow> re_m (CHR ''0'' # b # r) = [([CHR ''0'', b], r)]"
  by (simp add: re_m_def alt_def thn_def one_of_def)

lemma re_m_1x:
  "b \<in> set ''012'' \<Longrightarrow>
   re_m (CHR ''1'' # b # r) = [([CHR ''1'', b], r), ([CHR ''1''], b # r)]"
  by (simp add: re_m_def alt_def thn_def one_of_def)

lemma month_matches:
  assumes "is_digit a" "is_digit b" "1 \<le> py_int [a, b]" "py_int [a, b] \<le> 12"
  shows "concat (map (\<lambda>(m, r3). concat (map (\<lambda>(h2, r4). F m r4) (one_of ''-'' r3)))
           (re_m (a # b # CHR ''-'' # r))) = F [a, b] r"
proof -
  from assms have v: "1 \<le> 10 * digit_val a + digit_val b" "10 * digit_val a + digit_val b \<le> 12"
    by (simp_all add: py_int_2)
  then consider "digit_val a = 0" "1 \<le> digit_val b" | "digit_val a = 1" "digit_val b \<le> 2"
    by linarith
  then show ?thesis
  proof cases
    case 1
    with assms have "a = CHR ''0''" "b \<in> set ''123456789''"
      by (simp_all only: digit_val_eq_0 digit_val_pos)
    then show ?thesis by (simp only: re_m_0x) (simp add: hyphen_next)
  next
    case 2
    with assms have "a = CHR ''1''" "b \<in> set ''012''"
      by (simp_all only: digit_val_eq_1 digit_val_le_2)
    then show ?thesis by (simp only: re_m_1x) (simp add: hyphen_next hyphen_digit assms(2))
  qed
qed

lemma re_d_0x:
  "b \<in> set ''123456789'' \<Longrightarrow> re_d [CHR ''0'', b] = [([CHR ''0'', b], [])]"
  by (simp add: re_d_def re_digit_def alt_def thn_def one_of_def)

lemma re_d_1x:
  "is_digit b \<Longrightarrow> re_d [CHR ''1'', b] = [([CHR ''1'', b], []), ([CHR ''1''], [b])]"
  by (simp add: re_d_def alt_def thn_def one_of_def re_digit_digit)

lemma re_d_2x:
  "is_digit b \<Longrightarrow> re_d [CHR ''2'', b] = [([CHR ''2'', b], []), ([CHR ''2''], [b])]"
  by (simp add: re_d_def alt_def thn_def one_of_def re_digit_digit)

lemma re_d_3x:
  "b \<in> set ''01'' \<Longrightarrow> re_d [CHR ''3'', b] = [([CHR ''3'', b], []), ([CHR ''3''], [b])]"
  by (simp add: re_d_def re_digit_def alt_def thn_def one_of_def)

lemma day_matches:
  assumes "is_digit a" "is_digit b" "1 \<le> py_int [a, b]" "py_int [a, b] \<le> 31"
  shows "\<exists>tl. re_d [a, b] = ([a, b], []) # tl"
proof -
  from assms have v: "1 \<le> 10 * digit_val a + digit_val b" "10 * digit_val a + digit_val b \<le> 31"
    by (simp_all add: py_int_2)
  then consider "digit_val a = 0" "1 \<le> digit_val b" | "digit_val a = 1" | "digit_val a = 2"
    | "digit_val a = 3" "digit_val b \<le> 1"
    by linarith
  then show ?thesis
  proof cases
    case 1
    with assms have "a = CHR ''0''" "b \<in> set ''123456789''"
      by (simp_all only: digit_val_eq_0 digit_val_pos)
    then show ?thesis by (simp only: re_d_0x) simp
  next
    case 2
    with assms have "a = CHR ''1''" by (simp only: digit_val_eq_1)
    with assms(2) show ?thesis by (simp only: re_d_1x) simp
  next
    case 3
    with assms have "a = CHR ''2''" by (simp only: digit_val_eq_2)
    with assms(2) show ?thesis by (simp only: re_d_2x) simp
  next
    case 4
    with assms have "a = CHR ''3''" "b \<in> set ''01''"
      by (simp_all only: digit_val_eq_3 digit_val_le_1)
    then show ?thesis by (simp only: re_d_3x) simp
  qed
qed

lemma iso_date_shape:
  assumes "iso_date s"
  obtains y1 y2 y3 y4 m1 m2 d1 d2 where
    "s = [y1, y2, y3, y4, CHR ''-'', m1, m2, CHR ''-'', d1, d2]"
    "is_digit y1" "is_digit y2" "is_digit y3" "is_digit y4"
    "is_digit m1" "is_digit m2" "is_digit d1" "is_digit d2"
    "valid_date (py_int [y1, y2, y3, y4]) (py_int [m1, m2]) (py_int [d1, d2])"
proof -
  from assms have len: "length s = 10" by (simp add: iso_date_def fixed_width_def)
  then obtain c0 c1 c2 c3 c4 c5 c6 c7 c8 c9 where
    s: "s = [c0, c1, c2, c3, c4, c5, c6, c7, c8, c9]" by (rule length_10_cases)
  with assms show ?thesis
    by (intro that [of c0 c1 c2 c3 c5 c6 c8 c9])
       (simp_all add: iso_date_def fixed_width_def year_text_def month_text_def day_text_def)
qed

lemma strptime_iso_date:
  assumes "iso_date s"
  shows "strptime s = Some (py_int (year_text s), py_int (month_text s), py_int (day_text s))"
proof -
  from assms obtain y1 y2 y3 y4 m1 m2 d1 d2 where
    s: "s = [y1, y2, y3, y4, CHR ''-'', m1, m2, CHR ''-'', d1, d2]" and
    dg: "is_digit y1" "is_digit y2" "is_digit y3" "is_digit y4"
        "is_digit m1" "is_digit m2" "is_digit d1" "is_digit d2" and
    v: "valid_date (py_int [y1, y2, y3, y4]) (py_int [m1, m2]) (py_int [d1, d2])"
    by (rule iso_date_shape)
  from v have m: "1 \<le> py_int [m1, m2]" "py_int [m1, m2] \<le> 12"
    by (simp_all add: valid_date_def)
  from v have "py_int [d1, d2] \<le> days_in_month (py_int [y1, y2, y3, y4]) (py_int [m1, m2])"
    by (simp add: valid_date_def)
  moreover have "days_in_month (py_int [y1, y2, y3, y4]) (py_int [m1, m2]) \<le> 31"
    by (simp add: days_in_month_def)
  ultimately have d: "1 \<le> py_int [d1, d2]" "py_int [d1, d2] \<le> 31"
    using v by (simp_all add: valid_date_def)
  from day_matches [OF dg(7) dg(8) d] obtain tl where tl: "re_d [d1, d2] = ([d1, d2], []) # tl"
    by blast
  have hy: "one_of ''-'' (CHR ''-'' # r) = [([CHR ''-''], r)]" for r
    by (simp add: one_of_def)
  have "format_regex s = map (\<lambda>(d, r5). ([y1, y2, y3, y4], [m1, m2], d, r5)) (re_d [d1, d2])"
    unfolding format_regex_def s
    by (simp add: re_Y_digits dg hy
          month_matches [OF dg(5) dg(6) m, where F = "\<lambda>m r4. map (\<lambda>(d, r5). ([y1, y2, y3, y4], m, d, r5)) (re_d r4)"])
  then have "format_regex s = ([y1, y2, y3, y4], [m1, m2], [d1, d2], []) #
      map (\<lambda>(d, r5). ([y1, y2, y3, y4], [m1, m2], d, r5)) tl"
    by (simp add: tl)
  with v show ?thesis
    by (simp add: strptime_def s year_text_def month_text_def day_text_def)
qed


text \<open>
  Two dates in the fixed-width form that denote the same day are the same text: on
  stores that hold only such dates, grouping by the date column is grouping by day.
\<close>

lemma digit_of_digit_val: "is_digit c \<Longrightarrow> c = ''0123456789'' ! digit_val c \<and> digit_val c < 10"
  by (auto simp: is_digit_def digit_val_def)

lemma digit_val_inj:
  assumes "is_digit a" "is_digit b" "digit_val a = digit_val b"
  shows "a = b"
proof -
  from digit_of_digit_val [OF assms(1)] have "a = ''0123456789'' ! digit_val a" by (rule conjunct1)
  also from assms(3) have "\<dots> = ''0123456789'' ! digit_val b" by (rule arg_cong)
  also have "\<dots> = b" by (rule sym) (rule conjunct1 [OF digit_of_digit_val [OF assms(2)]])
  finally show ?thesis .
qed

lemma two_digits_inj:
  fixes x y x' y' :: nat
  assumes "10 * x + y = 10 * x' + y'" "y < 10" "y' < 10"
  shows "x = x' \<and> y = y'"
proof -
  have "(10 * x + y) div 10 = x" "(10 * x' + y') div 10 = x'"
    using assms(2,3) by simp_all
  with assms(1) have "x = x'" by simp
  with assms(1) show ?thesis by simp
qed

lemma py_int_2_inj:
  assumes "is_digit a" "is_digit b" "is_digit a'" "is_digit b'"
    and "py_int [a, b] = py_int [a', b']"
  shows "a = a' \<and> b = b'"
proof -
  from assms(5) have e: "10 * digit_val a + digit_val b = 10 * digit_val a' + digit_val b'"
    by (simp only: py_int_2 [OF assms(1)] py_int_2 [OF assms(3)])
  have "digit_val b < 10" "digit_val b' < 10"
    using digit_of_digit_val [OF assms(2)] digit_of_digit_val [OF assms(4)] by blast+
  from two_digits_inj [OF e this]
  have "digit_val a = digit_val a'" "digit_val b = digit_val b'" by blast+
  then show ?thesis
    using digit_val_inj [OF assms(1,3)] digit_val_inj [OF assms(2,4)] by blast
qed

lemma py_int_4_inj:
  assumes "is_digit a" "is_digit b" "is_digit c" "is_digit e"
    "is_digit a'" "is_digit b'" "is_digit c'" "is_digit e'"
    and "py_int [a, b, c, e] = py_int [a', b', c', e']"
  shows "a = a' \<and> b = b' \<and> c = c' \<and> e = e'"
proof -
  have lt: "digit_val b < 10" "digit_val b' < 10" "digit_val c < 10" "digit_val c' < 10"
    "digit_val e < 10" "digit_val e' < 10"
    using digit_of_digit_val [OF assms(2)] digit_of_digit_val [OF assms(6)]
      digit_of_digit_val [OF assms(3)] digit_of_digit_val [OF assms(7)]
      digit_of_digit_val [OF assms(4)] digit_of_digit_val [OF assms(8)] by blast+
  from assms(9) have "10 * (10 * (10 * digit_val a + digit_val b) + digit_val c) + digit_val e =
      10 * (10 * (10 * digit_val a' + digit_val b') + digit_val c') + digit_val e'"
    by (simp only: py_int_4 [OF assms(1)] py_int_4 [OF assms(5)]) simp
  from two_digits_inj [OF this lt(5,6)]
  have 1: "10 * (10 * digit_val a + digit_val b) + digit_val c =
      10 * (10 * digit_val a' + digit_val b') + digit_val c'" and e: "digit_val e = digit_val e'"
    by blast+
  from two_digits_inj [OF 1 lt(3,4)]
  have 2: "10 * digit_val a + digit_val b = 10 * digit_val a' + digit_val b'"
    and c: "digit_val c = digit_val c'"
    by blast+
  from two_digits_inj [OF 2 lt(1,2)]
  have "digit_val a = digit_val a'" "digit_val b = digit_val b'" by blast+
  with c e show ?thesis
    using digit_val_inj [OF assms(1,5)] digit_val_inj [OF assms(2,6)]
      digit_val_inj [OF assms(3,7)] digit_val_inj [OF assms(4,8)] by blast
qed

lemma iso_date_same_day:
  assumes "iso_date s" "iso_date t" "strptime s = strptime t"
  shows "s = t"
proof -
  from assms(1) obtain y1 y2 y3 y4 m1 m2 d1 d2 where
    s: "s = [y1, y2, y3, y4, CHR ''-'', m1, m2, CHR ''-'', d1, d2]" and
    ds: "is_digit y1" "is_digit y2" "is_digit y3" "is_digit y4"
        "is_digit m1" "is_digit m2" "is_digit d1" "is_digit d2" and
    "valid_date (py_int [y1, y2, y3, y4]) (py_int [m1, m2]) (py_int [d1, d2])"
    by (rule iso_date_shape)
  from assms(2) obtain z1 z2 z3 z4 n1 n2 e1 e2 where
    t: "t = [z1, z2, z3, z4, CHR ''-'', n1, n2, CHR ''-'', e1, e2]" and
    dt: "is_digit z1" "is_digit z2" "is_digit z3" "is_digit z4"
        "is_digit n1" "is_digit n2" "is_digit e1" "is_digit e2" and
    "valid_date (py_int [z1, z2, z3, z4]) (py_int [n1, n2]) (py_int [e1, e2])"
    by (rule iso_date_shape)
  have ts: "year_text s = [y1, y2, y3, y4]" "month_text s = [m1, m2]" "day_text s = [d1, d2]"
    by (simp_all add: s year_text_def month_text_def day_text_def)
  have tt: "year_text t = [z1, z2, z3, z4]" "month_text t = [n1, n2]" "day_text t = [e1, e2]"
    by (simp_all add: t year_text_def month_text_def day_text_def)
  have "Some (py_int [y1, y2, y3, y4], py_int [m1, m2], py_int [d1, d2]) = strptime s"
    by (simp only: strptime_iso_date [OF assms(1)] ts)
  also have "\<dots> = strptime t" by (rule assms(3))
  also have "\<dots> = Some (py_int [z1, z2, z3, z4], py_int [n1, n2], py_int [e1, e2])"
    by (simp only: strptime_iso_date [OF assms(2)] tt)
  finally have p: "py_int [y1, y2, y3, y4] = py_int [z1, z2, z3, z4]"
    "py_int [m1, m2] = py_int [n1, n2]" "py_int [d1, d2] = py_int [e1, e2]"
    by (simp_all only: option.inject prod.inject)
  have y: "y1 = z1 \<and> y2 = z2 \<and> y3 = z3 \<and> y4 = z4"
    by (rule py_int_4_inj [OF ds(1) ds(2) ds(3) ds(4) dt(1) dt(2) dt(3) dt(4) p(1)])
  have m: "m1 = n1 \<and> m2 = n2"
    by (rule py_int_2_inj [OF ds(5) ds(6) dt(5) dt(6) p(2)])
  have d: "d1 = e1 \<and> d2 = e2"
    by (rule py_int_2_inj [OF ds(7) ds(8) dt(7) dt(8) p(3)])
  from y m d show ?thesis unfolding s t by blast
qed

section \<open>Adding and listing expenses\<close>

lemmas regex_defs = format_regex_def re_Y_def re_m_def re_d_def re_digit_def one_of_def thn_def alt_def
lemmas date_defs = py_int_def digit_val_def valid_date_def days_in_month_def is_leap_def
lemmas iso_defs = iso_date_def fixed_width_def is_digit_def year_text_def month_text_def day_text_def


lemma fold_max_ge_init: "(b::int) \<le> fold max xs b"
  by (induction xs arbitrary: b) (auto intro: order_trans [OF max.cobounded2])

lemma fold_max_ge_elem: "x \<in> set xs \<Longrightarrow> (x::int) \<le> fold max xs b"
proof (induction xs arbitrary: b)
  case Nil
  then show ?case by simp
next
  case (Cons y ys)
  show ?case
  proof (cases "x = y")
    case True
    have "y \<le> max y b" by simp
    also have "\<dots> \<le> fold max ys (max y b)" by (rule fold_max_ge_init)
    finally show ?thesis using True by simp
  next
    case False
    with Cons show ?thesis by simp
  qed
qed

lemma next_id_fresh: "r \<in> set (expenses d) \<Longrightarrow> eid r < next_id d"
  using fold_max_ge_elem [of "eid r" "map eid (expenses d)" "sqlite_sequence d"]
  by (simp add: next_id_def)

lemma next_id_above_sequence: "sqlite_sequence d < next_id d"
  using fold_max_ge_init [of "sqlite_sequence d" "map eid (expenses d)"]
  by (simp add: next_id_def)


lemma double_sum_Nil: "double_sum [] = 0"
  by (simp add: double_sum_def double_add_def round_double_def)

lemma double_sum_10: "double_sum [10] = 10"
  by code_simp

lemma get_total_expenses_for_month_sum:
  "get_total_expenses_for_month m d = double_sum (month_amounts m d)"
  by (simp add: get_total_expenses_for_month_def sql_SUM_def double_sum_Nil)


lemma add_expense_accepted:
  assumes "strptime ds = Some ymd" "0 < a"
  shows "add_expense ds a c n d =
           (True, d\<lparr>expenses := expenses d @
                     [\<lparr>eid = next_id d, date = ds, amount = a, category = c, note_text = n\<rparr>],
                   sqlite_sequence := next_id d\<rparr>)"
  using assms by (simp add: add_expense_def)

lemma add_expense_fails_iff:
  "\<not> fst (add_expense ds a c n d) \<longleftrightarrow> strptime ds = None \<or> a \<le> 0"
  by (simp add: add_expense_def split: option.splits)

lemma add_expense_rejected_unchanged:
  "\<not> fst (add_expense ds a c n d) \<Longrightarrow> snd (add_expense ds a c n d) = d"
  by (simp add: add_expense_def split: option.splits if_splits)










text \<open>
  Claim C2 says that \<^verbatim>\<open>add_expense\<close> fails for every date that is not a real calendar
  date in \<^verbatim>\<open>YYYY-MM-DD\<close> form. The date \<^verbatim>\<open>2024-1-5\<close> is not in that form, yet
  \<^verbatim>\<open>strptime\<close> reads it as 5 January 2024, so \<^verbatim>\<open>add_expense\<close> returns \<^verbatim>\<open>True\<close> and stores
  the row as given. SQLite does not read that text as a date, and the total of January
  2024 does not count the expense.
\<close>

theorem add_expense_unpadded_date:
  "\<not> iso_date ''2024-1-5'' \<and>
   add_expense ''2024-1-5'' 10 ''Food'' [] init_db =
     (True, init_db\<lparr>expenses := [\<lparr>eid = 1, date = ''2024-1-5'', amount = 10, category = ''Food'',
                                   note_text = []\<rparr>], sqlite_sequence := 1\<rparr>) \<and>
   get_total_expenses_for_month ''2024-01'' (snd (add_expense ''2024-1-5'' 10 ''Food'' [] init_db)) = 0"
proof -
  have s: "strptime ''2024-1-5'' = Some (2024, 1, 5)"
    by (simp add: strptime_def regex_defs date_defs)
  have n: "next_id init_db = 1" by (simp add: next_id_def init_db_def)
  have i: "\<not> iso_date ''2024-1-5''" by (simp add: iso_defs)
  have q: "sqlite_strftime_Ym ''2024-1-5'' = None"
    by (simp add: sqlite_strftime_Ym_def fixed_width_def)
  have a: "add_expense ''2024-1-5'' 10 ''Food'' [] init_db =
     (True, init_db\<lparr>expenses := [\<lparr>eid = 1, date = ''2024-1-5'', amount = 10, category = ''Food'',
                                   note_text = []\<rparr>], sqlite_sequence := 1\<rparr>)"
    by (simp add: add_expense_accepted [OF s] n) (simp add: init_db_def)
  show ?thesis
    by (simp only: a i)
       (simp add: get_total_expenses_for_month_sum month_amounts_def q init_db_def double_sum_Nil)
qed

section \<open>Every reachable state is well formed\<close>

lemma strptime_valid_date: "strptime s = Some (y, m, dd) \<Longrightarrow> valid_date y m dd"
  by (auto simp: strptime_def split: list.splits prod.splits if_splits)

lemma well_formed_init_db: "well_formed init_db"
  by (simp add: well_formed_def init_db_def)

lemma store_of_inverse: "db_of (store_of d) = Some d"
  by (simp add: db_of_def store_of_def)

lemma initialize_db_well_formed:
  assumes "well_formed d"
  shows "initialize_db (store_of d) = store_of d"
proof -
  from assms obtain v where v: "settings d ''currency_symbol'' = Some v"
    by (auto simp: well_formed_def)
  from assms have c: "categories d \<noteq> []" by (simp add: well_formed_def)
  show ?thesis
    by (simp add: initialize_db_def store_of_def create_table_if_not_exists_def
        insert_or_ignore_def v c Let_def)
qed

lemma add_expense_result:
  "add_expense ds a c n d = (False, d) \<and> (strptime ds = None \<or> a \<le> 0) \<or>
   add_expense ds a c n d =
     (True, d\<lparr>expenses := expenses d @
                 [\<lparr>eid = next_id d, date = ds, amount = a, category = c, note_text = n\<rparr>],
             sqlite_sequence := next_id d\<rparr>) \<and> strptime ds \<noteq> None \<and> 0 < a"
  by (auto simp: add_expense_def split: option.splits)

lemma well_formed_add_expense:
  assumes "well_formed d"
  shows "well_formed (snd (add_expense ds a c n d))"
proof -
  from add_expense_result [of ds a c n d]
  consider "add_expense ds a c n d = (False, d)"
    | "add_expense ds a c n d =
     (True, d\<lparr>expenses := expenses d @
                 [\<lparr>eid = next_id d, date = ds, amount = a, category = c, note_text = n\<rparr>],
             sqlite_sequence := next_id d\<rparr>)" "strptime ds \<noteq> None" "0 < a"
    by blast
  then show ?thesis
  proof cases
    case 1
    with assms show ?thesis by simp
  next
    case 2
    have lt: "\<forall>r \<in> set (expenses d). eid r < next_id d"
      by (simp add: next_id_fresh)
    have "1 \<le> next_id d"
      using assms next_id_above_sequence [of d] by (simp add: well_formed_def)
    with assms 2 lt show ?thesis
      by (fastforce simp: well_formed_def)
  qed
qed

lemma well_formed_delete_expense:
  "well_formed d \<Longrightarrow> well_formed (snd (delete_expense i d))"
  by (auto simp: well_formed_def delete_expense_def distinct_map_filter)

lemma well_formed_add_category:
  "well_formed d \<Longrightarrow> well_formed (snd (add_category nm d))"
  by (auto simp: well_formed_def add_category_def)

lemma well_formed_set_monthly_goal:
  "well_formed d \<Longrightarrow> well_formed (set_monthly_goal m g d)"
  by (simp add: well_formed_def set_monthly_goal_def)

lemma well_formed_update_setting:
  "well_formed d \<Longrightarrow> well_formed (update_setting k v d)"
  by (simp add: well_formed_def update_setting_def)

lemma step_well_formed:
  assumes "step d d'" "well_formed d"
  shows "well_formed d'"
  using assms
proof (induction rule: step.induct)
  case (step_initialize_db d d')
  then show ?case by (simp add: initialize_db_well_formed store_of_inverse)
qed (simp_all add: well_formed_add_expense well_formed_delete_expense well_formed_add_category
       well_formed_set_monthly_goal well_formed_update_setting)

lemma steps_well_formed:
  assumes "rtranclp step d d'" "well_formed d"
  shows "well_formed d'"
  using assms by (induction rule: rtranclp_induct) (auto intro: step_well_formed)

lemma reachable_well_formed: "reachable d \<Longrightarrow> well_formed d"
  using steps_well_formed [OF _ well_formed_init_db] by (simp add: reachable_def)

section \<open>Deleting an expense\<close>

lemma reachable_step: "reachable d \<Longrightarrow> step d d' \<Longrightarrow> reachable d'"
  by (simp add: reachable_def)

lemma reachable_init_db: "reachable init_db"
  by (simp add: reachable_def)



section \<open>Stored expenses are valid and never change\<close>

lemma step_rows:
  assumes "step d d'" "well_formed d"
  shows "sqlite_sequence d \<le> sqlite_sequence d' \<and>
         (\<forall>r \<in> set (expenses d'). eid r \<le> sqlite_sequence d \<longrightarrow> r \<in> set (expenses d))"
  using assms
proof (induction rule: step.induct)
  case (step_add_expense d ds a c n)
  from add_expense_result [of ds a c n d] next_id_above_sequence [of d]
  show ?case by auto
next
  case (step_delete_expense d i)
  show ?case by (simp add: delete_expense_def)
next
  case (step_add_category d nm)
  show ?case by (simp add: add_category_def)
next
  case (step_set_monthly_goal d m g)
  show ?case by (simp add: set_monthly_goal_def)
next
  case (step_update_setting d k v)
  show ?case by (simp add: update_setting_def)
next
  case (step_initialize_db d d')
  then show ?case by (simp add: initialize_db_well_formed store_of_inverse)
qed

lemma steps_rows:
  assumes "rtranclp step d d'" "well_formed d"
  shows "sqlite_sequence d \<le> sqlite_sequence d' \<and>
         (\<forall>r \<in> set (expenses d'). eid r \<le> sqlite_sequence d \<longrightarrow> r \<in> set (expenses d))"
  using assms
proof (induction rule: rtranclp_induct)
  case base
  then show ?case by simp
next
  case (step y z)
  from step have wy: "well_formed y" by (auto intro: steps_well_formed)
  from step_rows [OF step(2) wy] step(3) [OF step(4)] show ?case by fastforce
qed

text \<open>
  Every stored expense has passed the checks of \<^verbatim>\<open>add_expense\<close>, and expenses are never
  changed: a row of a later state whose id had been given out by the earlier state is a
  row of the earlier state, and a row of the earlier state is either still there, the
  same, or no row has its id any more.
\<close>

lemma expenses_checked_and_immutable:
  assumes "reachable d" and "rtranclp step d d'"
  shows "(\<forall>r \<in> set (expenses d').
            0 < amount r \<and>
            (\<exists>y m dd. strptime (date r) = Some (y, m, dd) \<and> 1 \<le> y \<and> y \<le> 9999 \<and>
               1 \<le> m \<and> m \<le> 12 \<and> 1 \<le> dd \<and> dd \<le> days_in_month y m)) \<and>
         (\<forall>r \<in> set (expenses d'). eid r \<le> sqlite_sequence d \<longrightarrow> r \<in> set (expenses d)) \<and>
         (\<forall>r \<in> set (expenses d). r \<in> set (expenses d') \<or> eid r \<notin> eid ` set (expenses d'))"
proof -
  from assms(1) have wd: "well_formed d" by (rule reachable_well_formed)
  with assms(2) have wd': "well_formed d'" by (rule steps_well_formed)
  have valid: "0 < amount r \<and>
            (\<exists>y m dd. strptime (date r) = Some (y, m, dd) \<and> 1 \<le> y \<and> y \<le> 9999 \<and>
               1 \<le> m \<and> m \<le> 12 \<and> 1 \<le> dd \<and> dd \<le> days_in_month y m)"
    if "r \<in> set (expenses d')" for r
  proof -
    from wd' that have a: "0 < amount r" and "strptime (date r) \<noteq> None"
      by (simp_all add: well_formed_def)
    then obtain y m dd where p: "strptime (date r) = Some (y, m, dd)"
      by (cases "strptime (date r)") auto
    from strptime_valid_date [OF p] have "valid_date y m dd" .
    with a p show ?thesis by (simp add: valid_date_def)
  qed
  from steps_rows [OF assms(2) wd]
  have old: "\<forall>r \<in> set (expenses d'). eid r \<le> sqlite_sequence d \<longrightarrow> r \<in> set (expenses d)"
    by simp
  have kept: "r \<in> set (expenses d') \<or> eid r \<notin> eid ` set (expenses d')"
    if r: "r \<in> set (expenses d)" for r
  proof (cases "eid r \<in> eid ` set (expenses d')")
    case False
    then show ?thesis by simp
  next
    case True
    then obtain r' where r': "r' \<in> set (expenses d')" "eid r' = eid r" by auto
    from wd r have "eid r \<le> sqlite_sequence d" by (simp add: well_formed_def)
    with old r' have "r' \<in> set (expenses d)" by simp
    moreover from wd have "distinct (map eid (expenses d))" by (simp add: well_formed_def)
    ultimately have "r' = r" using r r'(2) by (meson distinct_map inj_onD)
    with r'(1) show ?thesis by simp
  qed
  from valid old kept show ?thesis by blast
qed

subsection \<open>The example stores\<close>

lemma strptime_2024_01_15: "strptime ''2024-01-15'' = Some (2024, 1, 15)"
  by (simp add: strptime_def regex_defs date_defs)

lemma strptime_2024_02_01: "strptime ''2024-02-01'' = Some (2024, 2, 1)"
  by (simp add: strptime_def regex_defs date_defs)

lemma one_expense_db_eq:
  "one_expense_db = init_db\<lparr>expenses := [\<lparr>eid = 1, date = ''2024-01-15'', amount = 10,
       category = ''Food'', note_text = ''lunch''\<rparr>], sqlite_sequence := 1\<rparr>"
  unfolding one_expense_db_def
  by (simp add: add_expense_accepted [OF strptime_2024_01_15]) (simp add: next_id_def init_db_def)

lemma second_expense_db_eq:
  "second_expense_db = init_db\<lparr>expenses := [\<lparr>eid = 2, date = ''2024-02-01'', amount = 5,
       category = ''Travel'', note_text = ''bus''\<rparr>], sqlite_sequence := 2\<rparr>"
  unfolding second_expense_db_def
  by (simp add: add_expense_accepted [OF strptime_2024_02_01] one_expense_db_eq)
     (simp add: next_id_def init_db_def delete_expense_def)

lemma reachable_one_expense_db: "reachable one_expense_db"
  unfolding one_expense_db_def
  by (rule reachable_step [OF reachable_init_db]) (rule step_add_expense)

lemma steps_second_expense_db: "rtranclp step one_expense_db second_expense_db"
proof -
  have "step one_expense_db (snd (add_expense ''2024-02-01'' 5 ''Travel'' ''bus'' one_expense_db))"
    by (rule step_add_expense)
  moreover have "step (snd (add_expense ''2024-02-01'' 5 ''Travel'' ''bus'' one_expense_db))
      second_expense_db"
    unfolding second_expense_db_def by (rule step_delete_expense)
  ultimately show ?thesis by (meson rtranclp.simps)
qed

lemma strptime_space_padded: "strptime ''2024-01- 5'' = Some (2024, 1, 5)"
  by (simp add: strptime_def regex_defs date_defs)

lemma reachable_space_padded_db: "reachable space_padded_db"
  unfolding space_padded_db_def
  by (rule reachable_step [OF reachable_init_db]) (rule step_add_expense)

text \<open>
  Claim C9 has every stored date a syntactically valid calendar date, in the format
  \<^verbatim>\<open>YYYY-MM-DD\<close> that the specification fixes. \<^verbatim>\<open>add_expense\<close> on the initialized store
  accepts \<^verbatim>\<open>2024-01- 5\<close>, with a blank where the day has its first digit, and stores it as
  given: the date of the stored row is not in the fixed-width form, and SQLite does not
  read it as a date, so the total of January 2024 leaves the expense out. This is the
  defect shown for claim C2.
\<close>

theorem stored_date_not_fixed_width:
  "fst (add_expense ''2024-01- 5'' 10 ''Food'' [] init_db) \<and>
   space_padded_db = snd (add_expense ''2024-01- 5'' 10 ''Food'' [] init_db) \<and>
   expenses space_padded_db =
     [\<lparr>eid = 1, date = ''2024-01- 5'', amount = 10, category = ''Food'', note_text = []\<rparr>] \<and>
   \<not> iso_date ''2024-01- 5'' \<and>
   sqlite_strftime_Ym ''2024-01- 5'' = None \<and>
   get_total_expenses_for_month ''2024-01'' space_padded_db = 0"
proof -
  have a: "add_expense ''2024-01- 5'' 10 ''Food'' [] init_db =
     (True, init_db\<lparr>expenses := [\<lparr>eid = 1, date = ''2024-01- 5'', amount = 10,
        category = ''Food'', note_text = []\<rparr>], sqlite_sequence := 1\<rparr>)"
    by (simp add: add_expense_accepted [OF strptime_space_padded])
       (simp add: next_id_def init_db_def)
  have i: "\<not> iso_date ''2024-01- 5''" by (simp add: iso_defs)
  have q: "sqlite_strftime_Ym ''2024-01- 5'' = None"
    by (simp add: sqlite_strftime_Ym_def fixed_width_def is_digit_def year_text_def
        month_text_def day_text_def)
  have e: "space_padded_db = snd (add_expense ''2024-01- 5'' 10 ''Food'' [] init_db)"
    by (rule space_padded_db_def)
  have r: "expenses space_padded_db =
     [\<lparr>eid = 1, date = ''2024-01- 5'', amount = 10, category = ''Food'', note_text = []\<rparr>]"
    by (simp add: e a)
  have t: "get_total_expenses_for_month ''2024-01'' space_padded_db = 0"
    by (simp add: get_total_expenses_for_month_sum month_amounts_def r q double_sum_Nil)
  have f: "fst (add_expense ''2024-01- 5'' 10 ''Food'' [] init_db)" by (simp add: a)
  from f e r i q t show ?thesis by blast
qed

section \<open>Initialization\<close>

lemma initialize_db_fresh: "initialize_db fresh_store = store_of init_db"
  by (simp add: initialize_db_def fresh_store_def store_of_def init_db_def
      create_table_if_not_exists_def insert_or_ignore_def default_categories_def)

lemma initialize_db_tables:
  "\<exists>rows sq cs g st. initialize_db s =
      \<lparr>expenses_tbl = Some (rows, sq), categories_tbl = Some cs, goals_tbl = Some g,
       settings_tbl = Some st\<rparr> \<and> cs \<noteq> [] \<and> st ''currency_symbol'' \<noteq> None"
  by (cases s)
     (auto simp: initialize_db_def create_table_if_not_exists_def insert_or_ignore_def
        default_categories_def Let_def split: option.splits)

lemma initialize_db_settled:
  assumes "cs \<noteq> []" "st ''currency_symbol'' \<noteq> None"
  shows "initialize_db \<lparr>expenses_tbl = Some e, categories_tbl = Some cs, goals_tbl = Some g,
       settings_tbl = Some st\<rparr> = \<lparr>expenses_tbl = Some e, categories_tbl = Some cs, goals_tbl = Some g,
       settings_tbl = Some st\<rparr>"
  using assms
  by (auto simp: initialize_db_def create_table_if_not_exists_def insert_or_ignore_def Let_def)

lemma initialize_db_idem: "initialize_db (initialize_db s) = initialize_db s"
proof -
  from initialize_db_tables [of s] obtain rows sq cs g st where
    "initialize_db s = \<lparr>expenses_tbl = Some (rows, sq), categories_tbl = Some cs,
       goals_tbl = Some g, settings_tbl = Some st\<rparr>" "cs \<noteq> []" "st ''currency_symbol'' \<noteq> None"
    by blast
  then show ?thesis by (simp add: initialize_db_settled)
qed

lemma initialize_db_keeps_categories:
  "categories_tbl s = Some cs \<Longrightarrow> cs \<noteq> [] \<Longrightarrow> categories_tbl (initialize_db s) = Some cs"
  by (simp add: initialize_db_def create_table_if_not_exists_def Let_def)

lemma initialize_db_keeps_setting:
  "settings_tbl s = Some st \<Longrightarrow> st ''currency_symbol'' = Some v \<Longrightarrow>
   settings_tbl (initialize_db s) = Some st"
  by (simp add: initialize_db_def create_table_if_not_exists_def insert_or_ignore_def Let_def
      split: option.splits)

lemma initialize_db_keeps_expenses:
  "expenses_tbl s = Some e \<Longrightarrow> expenses_tbl (initialize_db s) = Some e"
  by (simp add: initialize_db_def create_table_if_not_exists_def Let_def split: option.splits)

lemma initialize_db_keeps_goals:
  "goals_tbl s = Some g \<Longrightarrow> goals_tbl (initialize_db s) = Some g"
  by (simp add: initialize_db_def create_table_if_not_exists_def Let_def split: option.splits)

text \<open>
  Claim C8. On a file without tables \<^verbatim>\<open>initialize_db\<close> creates the four tables, with
  \<^verbatim>\<open>currency_symbol\<close> set to \<^verbatim>\<open>$\<close> and the five default categories. Running it twice is
  the same as running it once, on any file. On the store of any reachable state it
  changes nothing. A category table that is not empty, a currency symbol that is set,
  the expenses and the goals are kept as they are, whatever the rest of the file.
\<close>

theorem initialize_db_idempotent:
  "initialize_db fresh_store = store_of init_db \<and>
   expenses init_db = [] \<and> goals init_db = Map.empty \<and>
   settings init_db = [''currency_symbol'' \<mapsto> ''$''] \<and>
   categories init_db = [''Food'', ''Travel'', ''Shopping'', ''Bills'', ''Misc''] \<and>
   initialize_db (initialize_db s) = initialize_db s \<and>
   (reachable d \<longrightarrow> initialize_db (store_of d) = store_of d) \<and>
   (categories_tbl s = Some cs \<and> cs \<noteq> [] \<longrightarrow> categories_tbl (initialize_db s) = Some cs) \<and>
   (settings_tbl s = Some st \<and> st ''currency_symbol'' = Some v \<longrightarrow>
      settings_tbl (initialize_db s) = Some st) \<and>
   (expenses_tbl s = Some e \<longrightarrow> expenses_tbl (initialize_db s) = Some e) \<and>
   (goals_tbl s = Some g \<longrightarrow> goals_tbl (initialize_db s) = Some g)"
proof -
  have "initialize_db (store_of d) = store_of d" if "reachable d"
    using that by (intro initialize_db_well_formed reachable_well_formed)
  then show ?thesis
    by (simp add: initialize_db_fresh initialize_db_idem initialize_db_keeps_categories
        initialize_db_keeps_setting initialize_db_keeps_expenses initialize_db_keeps_goals)
       (simp add: init_db_def)
qed

lemma reachable_currency: "reachable (update_setting ''currency_symbol'' ''EUR'' one_expense_db)"
  by (rule reachable_step [OF reachable_one_expense_db]) (rule step_update_setting)

theorem initialize_db_idempotent_witness:
  "reachable (update_setting ''currency_symbol'' ''EUR'' one_expense_db) \<and>
   initialize_db (store_of (update_setting ''currency_symbol'' ''EUR'' one_expense_db)) =
     store_of (update_setting ''currency_symbol'' ''EUR'' one_expense_db) \<and>
   get_setting ''currency_symbol'' (update_setting ''currency_symbol'' ''EUR'' one_expense_db) =
     Some ''EUR'' \<and>
   categories_tbl (initialize_db (store_of init_db)) =
     Some [''Food'', ''Travel'', ''Shopping'', ''Bills'', ''Misc'']"
proof -
  let ?d = "update_setting ''currency_symbol'' ''EUR'' one_expense_db"
  have c: "categories_tbl (store_of init_db) = Some [''Food'', ''Travel'', ''Shopping'', ''Bills'', ''Misc''] \<and>
     [''Food'', ''Travel'', ''Shopping'', ''Bills'', ''Misc''] \<noteq> []"
    by (simp add: store_of_def init_db_def)
  from initialize_db_idempotent [of "store_of init_db" ?d
      "[''Food'', ''Travel'', ''Shopping'', ''Bills'', ''Misc'']"] reachable_currency c
  have "initialize_db (store_of ?d) = store_of ?d \<and>
     categories_tbl (initialize_db (store_of init_db)) =
       Some [''Food'', ''Travel'', ''Shopping'', ''Bills'', ''Misc'']"
    by blast
  moreover have "get_setting ''currency_symbol'' ?d = Some ''EUR''"
    by (simp add: get_setting_def update_setting_def)
  ultimately show ?thesis using reachable_currency by simp
qed

section \<open>The budget status\<close>






text \<open>
  Rounding moves the bands at their edges. With a goal of 0.2 and 0.17 spent the
  quotient of the two doubles is above 85%, the computed percentage is 85.0, and the
  label is \<^verbatim>\<open>Status: On Track\<close>.
\<close>

lemma boundary_values:
  "py_float (17 / 100) = 6124895493223875 / 36028797018963968"
  "py_float (2 / 10) = 3602879701896397 / 18014398509481984"
  "double_sum [6124895493223875 / 36028797018963968] = 6124895493223875 / 36028797018963968"
  "double_mul (double_div (6124895493223875 / 36028797018963968)
     (3602879701896397 / 18014398509481984)) 100 = 85"
  unfolding py_float_def by code_simp+

lemma boundary_db_eq:
  "boundary_db = init_db\<lparr>expenses :=
     [\<lparr>eid = 1, date = ''2024-01-15'', amount = 6124895493223875 / 36028797018963968,
        category = ''Food'', note_text = []\<rparr>], sqlite_sequence := 1,
     goals := [''2024-01'' \<mapsto> 3602879701896397 / 18014398509481984]\<rparr>"
  unfolding boundary_db_def boundary_values
  by (simp add: add_expense_accepted [OF strptime_2024_01_15] set_monthly_goal_def)
     (simp add: next_id_def init_db_def)

lemma budget_status_at_the_boundary:
  "get_total_expenses_for_month ''2024-01'' boundary_db = py_float (17 / 100) \<and>
   get_monthly_goal ''2024-01'' boundary_db = py_float (2 / 10) \<and>
   get_total_expenses_for_month ''2024-01'' boundary_db /
     get_monthly_goal ''2024-01'' boundary_db > 85 / 100 \<and>
   update_goal_display ''2024-01'' boundary_db = (85, ''Status: On Track'')"
proof -
  have q: "sqlite_strftime_Ym ''2024-01-15'' = Some ''2024-01''"
    by (simp add: sqlite_strftime_Ym_def iso_defs date_defs)
  have t: "get_total_expenses_for_month ''2024-01'' boundary_db =
      6124895493223875 / 36028797018963968"
    by (simp add: get_total_expenses_for_month_sum month_amounts_def boundary_db_eq q
        boundary_values)
  have g: "get_monthly_goal ''2024-01'' boundary_db = 3602879701896397 / 18014398509481984"
    by (simp add: get_monthly_goal_def boundary_db_eq)
  have u: "update_goal_display ''2024-01'' boundary_db = (85, ''Status: On Track'')"
    by (simp add: update_goal_display_def t g boundary_values)
  show ?thesis by (simp only: t g u boundary_values) simp
qed

section \<open>The average daily expense\<close>

lemma length_daily_totals: "length (daily_totals d) = card (date ` set (expenses d))"
  by (simp add: daily_totals_def length_remdups_card_conv)

lemma get_average_daily_expense_empty:
  "expenses d = [] \<Longrightarrow> get_average_daily_expense d = 0"
  by (simp add: get_average_daily_expense_def sql_AVG_def daily_totals_def)

lemma strptime_2024_03_01: "strptime ''2024-03-01'' = Some (2024, 3, 1)"
  by (simp add: strptime_def regex_defs date_defs)

lemma strptime_2024_03_02: "strptime ''2024-03-02'' = Some (2024, 3, 2)"
  by (simp add: strptime_def regex_defs date_defs)

lemma three_expenses_db_rows:
  "expenses three_expenses_db =
     [\<lparr>eid = 1, date = ''2024-03-01'', amount = 10, category = ''Bills'', note_text = []\<rparr>,
      \<lparr>eid = 2, date = ''2024-03-02'', amount = 4, category = ''Food'', note_text = []\<rparr>,
      \<lparr>eid = 3, date = ''2024-03-02'', amount = 6, category = ''Food'', note_text = []\<rparr>]"
  unfolding three_expenses_db_def
  by (simp add: add_expense_accepted [OF strptime_2024_03_01]
      add_expense_accepted [OF strptime_2024_03_02])
     (simp add: next_id_def init_db_def)

lemma average_values:
  "double_sum [4, 6] = 10" "double_sum [20] = 20"
  "double_div (double_sum [10, 10]) 2 = 10"
  "double_div (double_sum [10, 20]) 2 = 15"
  by code_simp+

text \<open>The example of the specification: 10 on one day, 4 and 6 on another.\<close>

lemma average_daily_expense_example:
  "daily_totals three_expenses_db = [10, 10] \<and>
   get_average_daily_expense three_expenses_db = 10 \<and>
   get_average_daily_expense init_db = 0"
proof -
  have t: "daily_totals three_expenses_db = [10, 10]"
    by (simp add: daily_totals_def three_expenses_db_rows double_sum_10 average_values)
  have "expenses init_db = []" by (simp add: init_db_def)
  then have i: "get_average_daily_expense init_db = 0"
    by (rule get_average_daily_expense_empty)
  have a: "get_average_daily_expense three_expenses_db = 10"
    by (simp add: t get_average_daily_expense_def sql_AVG_def average_values)
  from t a i show ?thesis by blast
qed

lemma strptime_2024_01_05:
  "strptime ''2024-01-05'' = Some (2024, 1, 5)" "strptime ''2024-1-5'' = Some (2024, 1, 5)"
  by (simp_all add: strptime_def regex_defs date_defs)

lemma two_spellings_db_rows:
  "expenses two_spellings_db =
     [\<lparr>eid = 1, date = ''2024-01-05'', amount = 10, category = ''Food'', note_text = []\<rparr>,
      \<lparr>eid = 2, date = ''2024-1-5'', amount = 20, category = ''Food'', note_text = []\<rparr>]"
  unfolding two_spellings_db_def
  by (simp add: add_expense_accepted [OF strptime_2024_01_05(1)]
      add_expense_accepted [OF strptime_2024_01_05(2)])
     (simp add: next_id_def init_db_def)

text \<open>
  Claim C5 takes the mean over the days that have an expense. \<^verbatim>\<open>add_expense\<close> accepts
  \<^verbatim>\<open>2024-01-05\<close> and \<^verbatim>\<open>2024-1-5\<close>, which \<^verbatim>\<open>strptime\<close> reads as the same day, and stores each
  as given; \<^verbatim>\<open>GROUP BY date\<close> makes two groups of them. With 10 under the first text and 20
  under the second the one day has a total of 30, which is what the claim gives, and
  the function returns 15. This comes from the defect shown for claim C2.
\<close>

theorem average_daily_expense_two_spellings:
  "strptime ''2024-01-05'' = Some (2024, 1, 5) \<and>
   strptime ''2024-1-5'' = Some (2024, 1, 5) \<and>
   two_spellings_db =
     snd (add_expense ''2024-1-5'' 20 ''Food'' []
       (snd (add_expense ''2024-01-05'' 10 ''Food'' [] init_db))) \<and>
   map date (expenses two_spellings_db) = [''2024-01-05'', ''2024-1-5''] \<and>
   map amount (expenses two_spellings_db) = [10, 20] \<and>
   daily_totals two_spellings_db = [10, 20] \<and>
   get_average_daily_expense two_spellings_db = 15"
proof -
  have e: "two_spellings_db =
     snd (add_expense ''2024-1-5'' 20 ''Food'' []
       (snd (add_expense ''2024-01-05'' 10 ''Food'' [] init_db)))"
    by (rule two_spellings_db_def)
  have r: "map date (expenses two_spellings_db) = [''2024-01-05'', ''2024-1-5'']"
    "map amount (expenses two_spellings_db) = [10, 20]"
    by (simp_all add: two_spellings_db_rows)
  have t: "daily_totals two_spellings_db = [10, 20]"
    by (simp add: daily_totals_def two_spellings_db_rows double_sum_10 average_values)
  have a: "get_average_daily_expense two_spellings_db = 15"
    by (simp add: t get_average_daily_expense_def sql_AVG_def average_values)
  from strptime_2024_01_05 e r t a show ?thesis by blast
qed

section \<open>Expenses in a range of dates\<close>

text \<open>
  Claim C6. \<^verbatim>\<open>get_expenses_in_date_range\<close> returns, once each, the date, amount, category
  and note of exactly the stored expenses whose date text lies between the two bounds in
  the lexicographic order of strings, both bounds included, in ascending order of the
  date. The range from 2024-01-01 to 2024-01-31 holds an expense of 2024-01-31 and not
  one of 2024-02-01.
\<close>

theorem expenses_in_date_range:
  "mset (get_expenses_in_date_range start_date end_date d) =
     image_mset (\<lambda>r. (date r, amount r, category r, note_text r))
       (filter_mset (\<lambda>r. start_date \<le> date r \<and> date r \<le> end_date) (mset (expenses d))) \<and>
   sorted (map fst (get_expenses_in_date_range start_date end_date d))"
proof -
  have "map fst (get_expenses_in_date_range start_date end_date d) =
      map date (sort_key date
        (filter (\<lambda>r. start_date \<le> date r \<and> date r \<le> end_date) (expenses d)))"
    by (simp add: get_expenses_in_date_range_def comp_def)
  then have "sorted (map fst (get_expenses_in_date_range start_date end_date d))"
    by (simp only: sorted_sort_key)
  moreover have "mset (get_expenses_in_date_range start_date end_date d) =
     image_mset (\<lambda>r. (date r, amount r, category r, note_text r))
       (filter_mset (\<lambda>r. start_date \<le> date r \<and> date r \<le> end_date) (mset (expenses d)))"
    by (simp add: get_expenses_in_date_range_def)
  ultimately show ?thesis by simp
qed

lemma strptime_2024_01_31: "strptime ''2024-01-31'' = Some (2024, 1, 31)"
  by (simp add: strptime_def regex_defs date_defs)

lemma two_months_db_rows:
  "expenses two_months_db =
     [\<lparr>eid = 1, date = ''2024-02-01'', amount = 3, category = ''Food'', note_text = []\<rparr>,
      \<lparr>eid = 2, date = ''2024-01-31'', amount = 7, category = ''Bills'', note_text = []\<rparr>]"
  unfolding two_months_db_def
  by (simp add: add_expense_accepted [OF strptime_2024_01_31]
      add_expense_accepted [OF strptime_2024_02_01])
     (simp add: next_id_def init_db_def)

theorem expenses_in_date_range_witness:
  "mset (get_expenses_in_date_range ''2024-01-01'' ''2024-01-31'' two_months_db) =
     {#(''2024-01-31'', 7, ''Bills'', [])#} \<and>
   get_expenses_in_date_range ''2024-01-01'' ''2024-01-31'' two_months_db =
     [(''2024-01-31'', 7, ''Bills'', [])] \<and>
   get_expenses_in_date_range ''2024-01-01'' ''2024-02-01'' two_months_db =
     [(''2024-01-31'', 7, ''Bills'', []), (''2024-02-01'', 3, ''Food'', [])]"
proof -
  from expenses_in_date_range [of "''2024-01-01''" "''2024-01-31''" two_months_db]
  have "mset (get_expenses_in_date_range ''2024-01-01'' ''2024-01-31'' two_months_db) =
     {#(''2024-01-31'', 7, ''Bills'', [])#}"
    by (simp add: two_months_db_rows)
  moreover have "get_expenses_in_date_range ''2024-01-01'' ''2024-02-01'' two_months_db =
     [(''2024-01-31'', 7, ''Bills'', []), (''2024-02-01'', 3, ''Food'', [])]"
    by (simp add: get_expenses_in_date_range_def two_months_db_rows)
  ultimately show ?thesis by simp
qed

section \<open>Categories\<close>

lemma strip_empty_iff: "strip s = [] \<longleftrightarrow> (\<forall>c \<in> set s. py_isspace c)"
proof
  assume "strip s = []"
  then have "dropWhile py_isspace (rev (dropWhile py_isspace s)) = []"
    by (simp add: strip_def)
  then have "\<forall>c \<in> set (dropWhile py_isspace s). py_isspace c"
    by (simp add: dropWhile_eq_Nil_conv)
  then have "dropWhile py_isspace s = []"
    by (metis dropWhile_eq_Nil_conv dropWhile_idem)
  then show "\<forall>c \<in> set s. py_isspace c" by (simp add: dropWhile_eq_Nil_conv)
next
  assume "\<forall>c \<in> set s. py_isspace c"
  then have h: "dropWhile py_isspace s = []" by (simp add: dropWhile_eq_Nil_conv)
  show "strip s = []" unfolding strip_def h by simp
qed

lemma count_list_get_categories: "count_list (get_categories d) x = count_list (categories d) x"
proof -
  have "count (mset (get_categories d)) x = count (mset (categories d)) x"
    by (simp add: get_categories_def)
  then show ?thesis by (simp only: count_mset)
qed

lemma add_category_new:
  assumes "strip nm \<noteq> []" "nm \<notin> set (categories d)"
  shows "add_category nm d =
           ((True, ''Category '' @ [CHR 39] @ nm @ [CHR 39] @ '' added successfully.''),
            d\<lparr>categories := categories d @ [nm]\<rparr>)"
  using assms by (simp add: add_category_def)

lemma add_category_existing:
  assumes "strip nm \<noteq> []" "nm \<in> set (categories d)"
  shows "add_category nm d =
           ((False, ''Error: Category '' @ [CHR 39] @ nm @ [CHR 39] @ '' already exists.''), d)"
  using assms by (simp add: add_category_def)

lemma init_db_categories:
  "categories init_db = [''Food'', ''Travel'', ''Shopping'', ''Bills'', ''Misc'']"
  by (simp add: init_db_def)

text \<open>
  Claim C7. \<^verbatim>\<open>add_category\<close> answers a name that is empty or all white space with
  \<^verbatim>\<open>(False, 'Category name cannot be empty.')\<close> and a name that is already a category
  with \<^verbatim>\<open>(False, "Error: Category '...' already exists.")\<close>; the two messages differ
  for every name, and in both cases the store is unchanged. Adding a new name twice
  succeeds the first time, reports the existing name the second time, and
  \<^verbatim>\<open>get_categories\<close> then holds the name exactly once.
\<close>

theorem add_category_outcomes:
  "((\<forall>c \<in> set nm. py_isspace c) \<longrightarrow>
      add_category nm d = ((False, ''Category name cannot be empty.''), d)) \<and>
   (\<not> (\<forall>c \<in> set nm. py_isspace c) \<and> nm \<in> set (categories d) \<longrightarrow>
      add_category nm d =
        ((False, ''Error: Category '' @ [CHR 39] @ nm @ [CHR 39] @ '' already exists.''), d)) \<and>
   ''Category name cannot be empty.'' \<noteq>
     ''Error: Category '' @ [CHR 39] @ nm @ [CHR 39] @ '' already exists.'' \<and>
   (\<not> (\<forall>c \<in> set nm. py_isspace c) \<and> nm \<notin> set (categories d) \<longrightarrow>
      fst (fst (add_category nm d)) \<and>
      add_category nm (snd (add_category nm d)) =
        ((False, ''Error: Category '' @ [CHR 39] @ nm @ [CHR 39] @ '' already exists.''),
         snd (add_category nm d)) \<and>
      count_list (get_categories (snd (add_category nm (snd (add_category nm d))))) nm = 1)"
proof -
  have blank: "add_category nm d = ((False, ''Category name cannot be empty.''), d)"
    if "\<forall>c \<in> set nm. py_isspace c"
    using that by (simp add: add_category_def strip_empty_iff)
  have twice: "fst (fst (add_category nm d)) \<and>
      add_category nm (snd (add_category nm d)) =
        ((False, ''Error: Category '' @ [CHR 39] @ nm @ [CHR 39] @ '' already exists.''),
         snd (add_category nm d)) \<and>
      count_list (get_categories (snd (add_category nm (snd (add_category nm d))))) nm = 1"
    if "\<not> (\<forall>c \<in> set nm. py_isspace c)" "nm \<notin> set (categories d)"
  proof -
    from that(1) have s: "strip nm \<noteq> []" by (simp add: strip_empty_iff)
    let ?d1 = "d\<lparr>categories := categories d @ [nm]\<rparr>"
    have 1: "add_category nm d =
        ((True, ''Category '' @ [CHR 39] @ nm @ [CHR 39] @ '' added successfully.''), ?d1)"
      by (rule add_category_new [OF s that(2)])
    have 2: "add_category nm ?d1 =
        ((False, ''Error: Category '' @ [CHR 39] @ nm @ [CHR 39] @ '' already exists.''), ?d1)"
      by (rule add_category_existing [OF s]) simp
    from that(2) have "count_list (categories ?d1) nm = 1" by simp
    then show ?thesis by (simp add: 1 2 count_list_get_categories)
  qed
  have existing: "add_category nm d =
        ((False, ''Error: Category '' @ [CHR 39] @ nm @ [CHR 39] @ '' already exists.''), d)"
    if "\<not> (\<forall>c \<in> set nm. py_isspace c)" "nm \<in> set (categories d)"
    using that by (intro add_category_existing) (simp_all add: strip_empty_iff)
  have differ: "''Category name cannot be empty.'' \<noteq>
     ''Error: Category '' @ [CHR 39] @ nm @ [CHR 39] @ '' already exists.''"
    by simp
  from blank twice existing differ show ?thesis by blast
qed

theorem add_category_outcomes_witness:
  "add_category ''  '' init_db = ((False, ''Category name cannot be empty.''), init_db) \<and>
   add_category ''Food'' init_db =
     ((False, ''Error: Category '' @ [CHR 39] @ ''Food'' @ [CHR 39] @ '' already exists.''),
      init_db) \<and>
   fst (fst (add_category ''Pets'' init_db)) \<and>
   add_category ''Pets'' (snd (add_category ''Pets'' init_db)) =
     ((False, ''Error: Category '' @ [CHR 39] @ ''Pets'' @ [CHR 39] @ '' already exists.''),
      snd (add_category ''Pets'' init_db)) \<and>
   count_list (get_categories (snd (add_category ''Pets'' (snd (add_category ''Pets'' init_db)))))
     ''Pets'' = 1"
proof -
  have b: "\<forall>c \<in> set ''  ''. py_isspace c" by (simp add: py_isspace_def)
  have f: "\<not> (\<forall>c \<in> set ''Food''. py_isspace c)" by (simp add: py_isspace_def)
  have p: "\<not> (\<forall>c \<in> set ''Pets''. py_isspace c)" by (simp add: py_isspace_def)
  have fi: "''Food'' \<in> set (categories init_db)" by (simp add: init_db_categories)
  have pi: "''Pets'' \<notin> set (categories init_db)" by (simp add: init_db_categories)
  from add_category_outcomes [of "''  ''" init_db] b
  have 1: "add_category ''  '' init_db = ((False, ''Category name cannot be empty.''), init_db)"
    by blast
  from add_category_outcomes [of "''Food''" init_db] f fi
  have 2: "add_category ''Food'' init_db =
     ((False, ''Error: Category '' @ [CHR 39] @ ''Food'' @ [CHR 39] @ '' already exists.''),
      init_db)"
    by blast
  from add_category_outcomes [of "''Pets''" init_db] p pi
  have 3: "fst (fst (add_category ''Pets'' init_db)) \<and>
   add_category ''Pets'' (snd (add_category ''Pets'' init_db)) =
     ((False, ''Error: Category '' @ [CHR 39] @ ''Pets'' @ [CHR 39] @ '' already exists.''),
      snd (add_category ''Pets'' init_db)) \<and>
   count_list (get_categories (snd (add_category ''Pets'' (snd (add_category ''Pets'' init_db)))))
     ''Pets'' = 1"
    by blast
  from 1 2 3 show ?thesis by blast
qed

text \<open>
  Claim C10. A name that is not all white space is stored as given, with no trimming and
  no change of case: after \<^verbatim>\<open>add_category\<close> the name itself is among the categories,
  nothing else was added, and a new name is appended to the table character for
  character. So \<^verbatim>\<open>' Food '\<close> is accepted beside \<^verbatim>\<open>'Food'\<close>, and \<^verbatim>\<open>get_categories\<close>
  returns both.
\<close>

theorem add_category_verbatim:
  "\<not> (\<forall>c \<in> set nm. py_isspace c) \<longrightarrow>
     nm \<in> set (get_categories (snd (add_category nm d))) \<and>
     set (get_categories (snd (add_category nm d))) = insert nm (set (get_categories d)) \<and>
     (nm \<notin> set (categories d) \<longrightarrow>
        fst (fst (add_category nm d)) \<and>
        categories (snd (add_category nm d)) = categories d @ [nm])"
proof
  assume "\<not> (\<forall>c \<in> set nm. py_isspace c)"
  then have s: "strip nm \<noteq> []" by (simp add: strip_empty_iff)
  show "nm \<in> set (get_categories (snd (add_category nm d))) \<and>
     set (get_categories (snd (add_category nm d))) = insert nm (set (get_categories d)) \<and>
     (nm \<notin> set (categories d) \<longrightarrow>
        fst (fst (add_category nm d)) \<and>
        categories (snd (add_category nm d)) = categories d @ [nm])"
  proof (cases "nm \<in> set (categories d)")
    case True
    with s show ?thesis
      by (auto simp: add_category_existing get_categories_def)
  next
    case False
    with s show ?thesis
      by (auto simp: add_category_new get_categories_def)
  qed
qed

theorem add_category_verbatim_witness:
  "\<not> (\<forall>c \<in> set '' Food ''. py_isspace c) \<and> strip '' Food '' = ''Food'' \<and>
   '' Food '' \<noteq> ''Food'' \<and>
   fst (fst (add_category '' Food '' init_db)) \<and>
   categories (snd (add_category '' Food '' init_db)) =
     [''Food'', ''Travel'', ''Shopping'', ''Bills'', ''Misc'', '' Food ''] \<and>
   get_categories (snd (add_category '' Food '' init_db)) =
     ['' Food '', ''Bills'', ''Food'', ''Misc'', ''Shopping'', ''Travel'']"
proof -
  have p: "\<not> (\<forall>c \<in> set '' Food ''. py_isspace c)" by (simp add: py_isspace_def)
  have n: "'' Food '' \<notin> set (categories init_db)" by (simp add: init_db_categories)
  have t: "strip '' Food '' = ''Food''" by (simp add: strip_def py_isspace_def)
  from add_category_verbatim [of "'' Food ''" init_db] p n
  have c: "fst (fst (add_category '' Food '' init_db)) \<and>
     categories (snd (add_category '' Food '' init_db)) = categories init_db @ ['' Food '']"
    by blast
  then have "get_categories (snd (add_category '' Food '' init_db)) =
     ['' Food '', ''Bills'', ''Food'', ''Misc'', ''Shopping'', ''Travel'']"
    by (simp add: get_categories_def init_db_categories)
  with c p t show ?thesis by (simp add: init_db_categories)
qed

end
